theory Spec2Isabelle
  imports Main "HOL-Library.Sublist" "HOL-Library.Word"
begin

section \<open>JavaScript strings\<close>

text \<open>
  A JavaScript string is a sequence of UTF-16 code units: \<open>length\<close>, \<open>startsWith\<close>,
  \<open>includes\<close> and \<open>trim\<close> all work on code units. A code unit is a 16-bit word, a string
  a list of them. \<open>js\<close> reads an ASCII literal of the theory as such a string.
\<close>

type_synonym code_unit = "16 word"
type_synonym jsstring = "code_unit list"

definition js :: "string \<Rightarrow> jsstring" where
  "js s = map (\<lambda>c. of_nat (of_char c)) s"

text \<open>
  \<open>String.prototype.trim\<close> removes ECMAScript's WhiteSpace and LineTerminator code points
  from both ends: TAB, LF, VT, FF, CR, SP, NBSP, U+1680, U+2000 to U+200A, U+2028, U+2029,
  U+202F, U+205F, U+3000 and U+FEFF. Each is one code unit.
\<close>

definition is_ws :: "code_unit \<Rightarrow> bool" where
  "is_ws c = (c \<in> set [0x9, 0xA, 0xB, 0xC, 0xD, 0x20, 0xA0, 0x1680,
     0x2000, 0x2001, 0x2002, 0x2003, 0x2004, 0x2005, 0x2006, 0x2007, 0x2008, 0x2009, 0x200A,
     0x2028, 0x2029, 0x202F, 0x205F, 0x3000, 0xFEFF])"

definition trim :: "jsstring \<Rightarrow> jsstring" where
  "trim s = rev (dropWhile is_ws (rev (dropWhile is_ws s)))"

text \<open>\<open>s.startsWith(p)\<close>: \<open>p\<close> is a prefix of \<open>s\<close>.\<close>

definition startsWith :: "jsstring \<Rightarrow> jsstring \<Rightarrow> bool" where
  "startsWith s p = prefix p s"

text \<open>\<open>s.includes(p)\<close>: \<open>p\<close> occurs in \<open>s\<close> as a contiguous run, at some position.\<close>

fun includes_sub :: "jsstring \<Rightarrow> jsstring \<Rightarrow> bool" where
  "includes_sub [] p = (p = [])"
| "includes_sub (c # cs) p = (prefix p (c # cs) \<or> includes_sub cs p)"

section \<open>The transcript consolidator (\<open>formatVapiTranscript\<close>, Validate.jsx)\<close>

text \<open>
  An element of the transcript array, and of the consolidated result, is an object
  \<open>{role, text}\<close> of two strings. A string is falsy exactly when it is empty; a missing
  property (\<open>undefined\<close>) is falsy too and is read here as the empty string, which the
  function treats the same way (the element is skipped). The field \<open>text'\<close> is the
  property \<open>text\<close>.
\<close>

record item =
  role :: jsstring
  text' :: jsstring

text \<open>
  The local variables of the loop: the \<open>result\<close> array, \<open>currentRole\<close> (initially \<open>null\<close>,
  here \<open>None\<close>) and \<open>currentText\<close> (initially the empty string).
\<close>

record loop_state =
  result :: "item list"
  currentRole :: "jsstring option"
  currentText :: jsstring

definition initial :: loop_state where
  "initial = \<lparr>result = [], currentRole = None, currentText = []\<rparr>"

text \<open>
  Both places that push onto \<open>result\<close> (on a role change, and after the loop) run the same
  code: \<open>if (currentRole && currentText.trim()) result.push({role: currentRole, text:
  currentText.trim()})\<close>. \<open>pushed s\<close> is the \<open>result\<close> array after it.
\<close>

definition pushed :: "loop_state \<Rightarrow> item list" where
  "pushed s =
     (case currentRole s of
        None \<Rightarrow> result s
      | Some r \<Rightarrow>
          if r \<noteq> [] \<and> trim (currentText s) \<noteq> []
          then result s @ [\<lparr>role = r, text' = trim (currentText s)\<rparr>]
          else result s)"

text \<open>One iteration of the \<open>for\<close> loop, in the order of the source's branches.\<close>

definition loop_body :: "loop_state \<Rightarrow> item \<Rightarrow> loop_state" where
  "loop_body s it =
     (if role it = [] \<or> text' it = [] then s
      else if currentRole s \<noteq> Some (role it) then
        \<lparr>result = pushed s, currentRole = Some (role it), currentText = text' it\<rparr>
      else if length (currentText s) < length (text' it)
              \<and> startsWith (text' it) (trim (currentText s)) then
        s\<lparr>currentText := text' it\<rparr>
      else if \<not> includes_sub (currentText s) (text' it) \<and> trim (text' it) \<noteq> [] then
        s\<lparr>currentText := currentText s @ js '' '' @ text' it\<rparr>
      else s)"

fun loop :: "loop_state \<Rightarrow> item list \<Rightarrow> loop_state" where
  "loop s [] = s"
| "loop s (it # rest) = loop (loop_body s it) rest"

definition formatVapiTranscript :: "item list \<Rightarrow> item list" where
  "formatVapiTranscript transcriptArray =
     (if length transcriptArray = 0 then []
      else pushed (loop initial transcriptArray))"

text \<open>
  The two roles the voice collaborator sends: \<open>assistant\<close> is the interviewer, \<open>user\<close> the
  candidate.
\<close>

definition Interviewer :: jsstring where
  "Interviewer = js ''assistant''"

definition Candidate :: jsstring where
  "Candidate = js ''user''"

section \<open>The evaluation document (\<open>formatTranscriptForLLM\<close>, Validate.jsx)\<close>

text \<open>
  \<open>formatTranscriptForLLM\<close> consolidates its argument with \<open>formatVapiTranscript\<close>, starts
  from the header \<open>"INTERVIEW TRANSCRIPT:\n\n"\<close> and, in a \<open>forEach\<close> over the consolidated
  messages, appends the template \<open>`${speaker}: ${message.text}\n\n`\<close>. The line feed is
  the code unit \<open>0xA\<close>.
\<close>

definition speaker :: "item \<Rightarrow> jsstring" where
  "speaker message =
     (if role message = js ''assistant'' then js ''AI INTERVIEWER'' else js ''CANDIDATE'')"

definition formatTranscriptForLLM :: "item list \<Rightarrow> jsstring" where
  "formatTranscriptForLLM transcriptArray =
     foldl (\<lambda>transcriptString message.
              transcriptString @ speaker message @ js '': '' @ text' message @ [0xA, 0xA])
       (js ''INTERVIEW TRANSCRIPT:'' @ [0xA, 0xA])
       (formatVapiTranscript transcriptArray)"

section \<open>The \<open>Interview\<close> component: call events and \<open>endCall\<close>\<close>

text \<open>
  The state of the component that the handlers read and write: whether the \<open>vapi\<close>
  instance is set (it is \<open>null\<close> until the mounting effect has run), the flags
  \<open>isConnected\<close> and \<open>isSpeaking\<close>, and the raw \<open>transcript\<close> array. Two logs record the
  calls the component makes to its collaborators: \<open>stops\<close> counts \<open>vapi.stop()\<close>, and
  \<open>evaluations\<close> lists the documents with which \<open>run\<close> was started, in order (\<open>run\<close> calls
  \<open>evaluateInterview\<close> on its argument at once and updates the stored performance when
  that returns).
\<close>

record interview =
  vapi :: bool
  isConnected :: bool
  isSpeaking :: bool
  transcript :: "item list"
  stops :: nat
  evaluations :: "jsstring list"

text \<open>
  The events of the component: the five listeners registered on the Vapi instance that
  change the state (a message of another type than \<open>"transcript"\<close> changes nothing), and
  the click on the end button, which calls \<open>endCall\<close>.
\<close>

datatype event =
  Call_start
  | Call_end
  | Speech_start
  | Speech_end
  | Transcript_message item
  | Other_message
  | EndCall

definition endCall :: "interview \<Rightarrow> interview" where
  "endCall c =
     (if vapi c then
        c\<lparr>stops := stops c + 1,
          evaluations := evaluations c
            @ [formatTranscriptForLLM (formatVapiTranscript (transcript c))]\<rparr>
      else c)"

fun handle :: "interview \<Rightarrow> event \<Rightarrow> interview" where
  "handle c Call_start = c\<lparr>isConnected := True\<rparr>"
| "handle c Call_end = c\<lparr>isConnected := False, isSpeaking := False\<rparr>"
| "handle c Speech_start = c\<lparr>isSpeaking := True\<rparr>"
| "handle c Speech_end = c\<lparr>isSpeaking := False\<rparr>"
| "handle c (Transcript_message m) = c\<lparr>transcript := transcript c @ [m]\<rparr>"
| "handle c Other_message = c"
| "handle c EndCall = endCall c"

fun session :: "interview \<Rightarrow> event list \<Rightarrow> interview" where
  "session c [] = c"
| "session c (e # es) = session (handle c e) es"

text \<open>The component once mounted: the Vapi instance exists, nothing has happened yet.\<close>

definition mounted :: interview where
  "mounted = \<lparr>vapi = True, isConnected = False, isSpeaking = False, transcript = [],
               stops = 0, evaluations = []\<rparr>"

section \<open>The face detection interval\<close>

text \<open>
  Once the detector is loaded, \<open>setInterval(detectFaces, 1000)\<close> calls \<open>detectFaces\<close> every
  second. \<open>detectFaces\<close> tests only that the webcam's video is there with \<open>readyState\<close> 4;
  it then calls \<open>detector.estimateFaces(video)\<close> and awaits the result. The state keeps
  whether the video is ready, the number of \<open>estimateFaces\<close> calls that have not returned
  yet, the number of calls made, and the number of alerts shown. A call returns with the
  number of faces it found, or fails.
\<close>

record monitor =
  videoReady :: bool
  inFlight :: nat
  queries :: nat
  alerts :: nat

datatype monitor_event =
  Tick
  | Returned nat
  | Failed
  | Video bool

definition detectFaces :: "monitor \<Rightarrow> monitor" where
  "detectFaces m =
     (if videoReady m then m\<lparr>inFlight := inFlight m + 1, queries := queries m + 1\<rparr>
      else m)"

fun monitor_step :: "monitor \<Rightarrow> monitor_event \<Rightarrow> monitor" where
  "monitor_step m Tick = detectFaces m"
| "monitor_step m (Returned faces) =
     (if inFlight m = 0 then m
      else m\<lparr>inFlight := inFlight m - 1,
             alerts := (if faces = 0 then alerts m + 1 else alerts m)\<rparr>)"
| "monitor_step m Failed =
     (if inFlight m = 0 then m else m\<lparr>inFlight := inFlight m - 1\<rparr>)"
| "monitor_step m (Video ready) = m\<lparr>videoReady := ready\<rparr>"

fun monitoring :: "monitor \<Rightarrow> monitor_event list \<Rightarrow> monitor" where
  "monitoring m [] = m"
| "monitoring m (e # es) = monitoring (monitor_step m e) es"

definition watching :: monitor where
  "watching = \<lparr>videoReady = True, inFlight = 0, queries = 0, alerts = 0\<rparr>"

section \<open>Predicates of the statements\<close>

text \<open>
  The evaluation document as the specification describes it, for a transcript \<open>us\<close>: the
  header line, then for each utterance in order the line \<open><SPEAKER LABEL>: <text>\<close>, with
  the label \<open>AI INTERVIEWER\<close> for the interviewer and \<open>CANDIDATE\<close> otherwise, each followed
  by a blank line.
\<close>

definition rendered :: "item list \<Rightarrow> jsstring" where
  "rendered us =
     js ''INTERVIEW TRANSCRIPT:'' @ [0xA, 0xA]
     @ concat (map (\<lambda>u. (if role u = Interviewer then js ''AI INTERVIEWER''
                          else js ''CANDIDATE'')
                         @ js '': '' @ text' u @ [0xA, 0xA]) us)"

text \<open>
  An utterance as the consolidator is meant to emit it: a role, and a text that is not
  empty and is its own trim.
\<close>

definition trimmed_nonempty :: "item \<Rightarrow> bool" where
  "trimmed_nonempty u = (role u \<noteq> [] \<and> text' u \<noteq> [] \<and> trim (text' u) = text' u)"

text \<open>A whitespace-only fragment: its text is not empty, and trims to the empty string.\<close>

definition whitespace_only :: "item \<Rightarrow> bool" where
  "whitespace_only it = (text' it \<noteq> [] \<and> trim (text' it) = [])"

text \<open>No two neighbours of a transcript have the same role.\<close>

definition alternating :: "item list \<Rightarrow> bool" where
  "alternating xs = successively (\<lambda>a b. role a \<noteq> role b) xs"

text \<open>
  The invariant of the loop on a stream without whitespace-only fragments: an open
  accumulator has a role and a text that does not trim to nothing, and the transcript
  that closing it now would give is alternating.
\<close>

definition open_ok :: "loop_state \<Rightarrow> bool" where
  "open_ok s = (alternating (pushed s) \<and>
     (case currentRole s of
        None \<Rightarrow> result s = []
      | Some r \<Rightarrow> r \<noteq> [] \<and> trim (currentText s) \<noteq> []))"

section \<open>Lemmas\<close>

subsection \<open>The role of an open accumulator\<close>

lemma loop_body_role_nonempty:
  assumes "\<And>r. currentRole s = Some r \<Longrightarrow> r \<noteq> []"
    and "currentRole (loop_body s it) = Some r"
  shows "r \<noteq> []"
  using assms by (auto simp: loop_body_def split: if_splits)

lemma loop_role_nonempty_gen:
  assumes "\<And>r. currentRole s = Some r \<Longrightarrow> r \<noteq> []"
    and "currentRole (loop s its) = Some r"
  shows "r \<noteq> []"
  using assms
proof (induction its arbitrary: s)
  case Nil
  then show ?case by simp
next
  case (Cons it its)
  show ?case
  proof (rule Cons.IH [of "loop_body s it"])
    show "\<And>r. currentRole (loop_body s it) = Some r \<Longrightarrow> r \<noteq> []"
      using loop_body_role_nonempty [of s] Cons.prems(1) by blast
    show "currentRole (loop (loop_body s it) its) = Some r"
      using Cons.prems(2) by simp
  qed
qed

lemma loop_role_nonempty: "currentRole (loop initial its) = Some r \<Longrightarrow> r \<noteq> []"
  using loop_role_nonempty_gen [of initial its r] by (simp add: initial_def)

subsection \<open>\<open>trim\<close> and \<open>includes\<close>\<close>

lemma trim_Nil: "trim [] = []"
  by (simp add: trim_def)

lemma all_dropWhile: "(\<forall>x\<in>set (dropWhile P s). P x) \<longleftrightarrow> (\<forall>x\<in>set s. P x)"
  by (induction s) auto

lemma trim_eq_Nil_iff: "trim s = [] \<longleftrightarrow> list_all is_ws s"
  by (simp add: trim_def list_all_iff all_dropWhile)

lemma not_ws_trim_id:
  assumes "s \<noteq> []" "\<not> is_ws (hd s)" "\<not> is_ws (last s)"
  shows "trim s = s"
proof -
  have 1: "dropWhile is_ws s = s"
    using assms(1,2) by (cases s) auto
  have "rev s \<noteq> []" "\<not> is_ws (hd (rev s))"
    using assms(1,3) by (simp_all add: hd_rev)
  then have 2: "dropWhile is_ws (rev s) = rev s"
    by (cases "rev s") auto
  show ?thesis
    by (simp add: trim_def 1 2)
qed

lemma trim_ends:
  assumes "trim s \<noteq> []"
  shows "\<not> is_ws (hd (trim s)) \<and> \<not> is_ws (last (trim s))"
proof -
  let ?d = "dropWhile is_ws s"
  let ?e = "dropWhile is_ws (rev ?d)"
  have e: "?e \<noteq> []" using assms by (simp add: trim_def)
  then have l: "\<not> is_ws (hd ?e)" by (rule hd_dropWhile)
  have d: "?d \<noteq> []"
  proof
    assume "?d = []"
    then have "?e = []" by (simp only: rev.simps dropWhile.simps)
    with e show False by blast
  qed
  then have hd_d: "\<not> is_ws (hd ?d)" by (rule hd_dropWhile)
  have "last (trim s) = hd ?e" using e by (simp add: trim_def last_rev)
  moreover have "hd (trim s) = hd ?d"
  proof -
    have "hd (rev ?e) = last ?e" using e by (simp add: hd_rev)
    also have "\<dots> = last (rev ?d)" using e
      by (metis last_appendR takeWhile_dropWhile_id)
    also have "\<dots> = hd ?d" using d by (simp add: last_rev)
    finally show ?thesis by (simp add: trim_def)
  qed
  ultimately show ?thesis using l hd_d by simp
qed

lemma trim_idem: "trim (trim s) = trim s"
proof (cases "trim s = []")
  case True
  then show ?thesis by (simp add: trim_Nil)
next
  case False
  then show ?thesis using trim_ends [OF False] by (intro not_ws_trim_id) auto
qed

lemma blank_not_prefixed:
  assumes "list_all is_ws w" "prefix (trim T) w"
  shows "trim T = []"
proof (rule ccontr)
  assume n: "trim T \<noteq> []"
  then have "hd (trim T) \<in> set w"
    using assms(2) by (metis hd_in_set set_mono_prefix subsetD)
  then show False using assms(1) trim_ends [OF n] by (auto simp: list_all_iff)
qed

lemma includes_sub_Nil: "includes_sub T []"
  by (cases T) simp_all

lemma includes_sub_sublist: "includes_sub s p = sublist p s"
  by (induction s) (simp_all add: sublist_Cons_right)

subsection \<open>Skipped elements\<close>

lemma loop_body_skip: "role it = [] \<or> text' it = [] \<Longrightarrow> loop_body s it = s"
  by (simp add: loop_body_def)

lemma loop_filter: "loop s (filter (\<lambda>f. text' f \<noteq> []) its) = loop s its"
  by (induction its arbitrary: s) (simp_all add: loop_body_skip)

lemma loop_all_skipped: "list_all (\<lambda>f. text' f = []) its \<Longrightarrow> loop s its = s"
  by (induction its arbitrary: s) (simp_all add: loop_body_skip)

lemma format_filter:
  "formatVapiTranscript (filter (\<lambda>f. text' f \<noteq> []) its) = formatVapiTranscript its"
proof (cases "filter (\<lambda>f. text' f \<noteq> []) its = []")
  case True
  then have "list_all (\<lambda>f. text' f = []) its"
    by (auto simp: filter_empty_conv list_all_iff)
  then have "loop initial its = initial" by (rule loop_all_skipped)
  then show ?thesis using True by (simp add: formatVapiTranscript_def pushed_def initial_def)
next
  case False
  then have "its \<noteq> []" by auto
  then show ?thesis using False by (simp add: formatVapiTranscript_def loop_filter)
qed

subsection \<open>Every pushed utterance is trimmed and not empty\<close>

lemma pushed_normal:
  "list_all trimmed_nonempty (result s) \<Longrightarrow> list_all trimmed_nonempty (pushed s)"
  by (auto simp: pushed_def trimmed_nonempty_def trim_idem split: option.splits)

lemma loop_body_normal:
  "list_all trimmed_nonempty (result s) \<Longrightarrow>
    list_all trimmed_nonempty (result (loop_body s it))"
  by (simp add: loop_body_def pushed_normal)

lemma loop_normal:
  "list_all trimmed_nonempty (result s) \<Longrightarrow> list_all trimmed_nonempty (result (loop s its))"
  by (induction its arbitrary: s) (simp_all add: loop_body_normal)

lemma formatVapiTranscript_normal: "list_all trimmed_nonempty (formatVapiTranscript its)"
  by (simp add: formatVapiTranscript_def pushed_normal loop_normal initial_def)

subsection \<open>Streams without whitespace-only fragments\<close>

lemma alternating_snoc:
  "alternating (xs @ [a]) \<longleftrightarrow> alternating xs \<and> (xs = [] \<or> role (last xs) \<noteq> role a)"
  by (auto simp: alternating_def successively_append_iff)

lemma open_ok_loop_body:
  assumes "open_ok s" "\<not> whitespace_only it"
  shows "open_ok (loop_body s it)"
proof (cases "role it = [] \<or> text' it = []")
  case True
  then show ?thesis using assms(1) by (simp add: loop_body_skip)
next
  case False
  then have nb: "trim (text' it) \<noteq> []" and r: "role it \<noteq> []"
    using assms(2) by (auto simp: whitespace_only_def)
  show ?thesis
  proof (cases "currentRole s")
    case None
    then show ?thesis using assms(1) False nb
      by (simp add: open_ok_def loop_body_def pushed_def alternating_def)
  next
    case (Some c)
    then have c: "c \<noteq> []" "trim (currentText s) \<noteq> []"
      and alt: "alternating (result s @ [\<lparr>role = c, text' = trim (currentText s)\<rparr>])"
      using assms(1) by (auto simp: open_ok_def pushed_def)
    show ?thesis
    proof (cases "c = role it")
      case True
      then show ?thesis using Some c alt nb False
        by (auto simp: open_ok_def loop_body_def pushed_def alternating_snoc trim_eq_Nil_iff)
    next
      case False
      then show ?thesis using Some c alt nb r \<open>\<not> (role it = [] \<or> text' it = [])\<close>
        by (auto simp: open_ok_def loop_body_def pushed_def alternating_def
            successively_append_iff)
    qed
  qed
qed

lemma open_ok_loop:
  "open_ok s \<Longrightarrow> list_all (\<lambda>f. \<not> whitespace_only f) its \<Longrightarrow> open_ok (loop s its)"
  by (induction its arbitrary: s) (simp_all add: open_ok_loop_body)

lemma open_ok_initial: "open_ok initial"
  by (simp add: open_ok_def initial_def pushed_def alternating_def)

lemma format_alternating:
  "list_all (\<lambda>f. \<not> whitespace_only f) its \<Longrightarrow> alternating (formatVapiTranscript its)"
  using open_ok_loop [OF open_ok_initial, of its]
  by (simp add: formatVapiTranscript_def open_ok_def alternating_def)

subsection \<open>The consolidator on an alternating, trimmed transcript\<close>

lemma loop_alternating:
  assumes "currentRole s = Some r" "r \<noteq> []"
    and "trim (currentText s) = currentText s" "currentText s \<noteq> []"
    and "list_all trimmed_nonempty xs" "alternating xs" "xs = [] \<or> role (hd xs) \<noteq> r"
  shows "pushed (loop s xs) = result s @ \<lparr>role = r, text' = currentText s\<rparr> # xs"
  using assms
proof (induction xs arbitrary: s r)
  case Nil
  then show ?case by (simp add: pushed_def)
next
  case (Cons x xs)
  let ?s' = "\<lparr>result = result s @ [\<lparr>role = r, text' = currentText s\<rparr>],
             currentRole = Some (role x), currentText = text' x\<rparr>"
  have x: "role x \<noteq> []" "text' x \<noteq> []" "trim (text' x) = text' x" "role x \<noteq> r"
    using Cons.prems(5,7) by (simp_all add: trimmed_nonempty_def)
  have step: "loop_body s x = ?s'"
    using Cons.prems(1-4) x by (auto simp: loop_body_def pushed_def)
  have "pushed (loop ?s' xs) = result ?s' @ \<lparr>role = role x, text' = currentText ?s'\<rparr> # xs"
  proof (rule Cons.IH)
    show "xs = [] \<or> role (hd xs) \<noteq> role x"
      using Cons.prems(6) by (cases xs) (auto simp: alternating_def)
  qed (use x Cons.prems(5,6) in \<open>auto simp: alternating_def successively_Cons\<close>)
  then show ?case by (simp add: step)
qed

lemma format_id:
  assumes "list_all trimmed_nonempty xs" "alternating xs"
  shows "formatVapiTranscript xs = xs"
proof (cases xs)
  case Nil
  then show ?thesis by (simp add: formatVapiTranscript_def)
next
  case (Cons x xs')
  let ?s = "\<lparr>result = [], currentRole = Some (role x), currentText = text' x\<rparr>"
  have x: "role x \<noteq> []" "text' x \<noteq> []" "trim (text' x) = text' x"
    using assms(1) Cons by (simp_all add: trimmed_nonempty_def)
  have step: "loop_body initial x = ?s"
    using x by (simp add: loop_body_def initial_def pushed_def)
  have "pushed (loop ?s xs') = result ?s @ \<lparr>role = role x, text' = currentText ?s\<rparr> # xs'"
  proof (rule loop_alternating)
    show "xs' = [] \<or> role (hd xs') \<noteq> role x"
      using assms(2) Cons by (cases xs') (auto simp: alternating_def)
  qed (use x assms Cons in \<open>auto simp: alternating_def successively_Cons\<close>)
  then show ?thesis using Cons by (simp add: formatVapiTranscript_def step)
qed

subsection \<open>The document and the component\<close>

lemma foldl_append_lines:
  "foldl (\<lambda>acc m. acc @ g m) a xs = a @ concat (map g xs)"
  by (induction xs arbitrary: a) simp_all

lemma formatTranscriptForLLM_rendered:
  "formatTranscriptForLLM x = rendered (formatVapiTranscript x)"
  by (simp add: formatTranscriptForLLM_def rendered_def speaker_def Interviewer_def
      foldl_append_lines)

lemma handle_vapi: "vapi (handle c e) = vapi c"
  by (cases e) (simp_all add: endCall_def)

lemma handle_evaluations:
  "vapi c \<Longrightarrow> length (evaluations (handle c e))
     = length (evaluations c) + (if e = EndCall then 1 else 0)"
  by (cases e) (simp_all add: endCall_def)

lemma session_evaluations:
  "vapi c \<Longrightarrow> length (evaluations (session c es))
     = length (evaluations c) + count_list es EndCall"
proof (induction es arbitrary: c)
  case Nil
  then show ?case by simp
next
  case (Cons e es)
  have "vapi (handle c e)" using Cons.prems by (simp add: handle_vapi)
  then show ?case using Cons.IH [of "handle c e"] handle_evaluations [OF Cons.prems, of e]
    by simp
qed

lemma ticks_in_flight:
  "videoReady m \<Longrightarrow> inFlight (monitoring m (replicate n Tick)) = inFlight m + n
     \<and> queries (monitoring m (replicate n Tick)) = queries m + n"
  by (induction n arbitrary: m) (simp_all add: detectFaces_def)

subsection \<open>Evaluating the definitions on concrete streams\<close>

lemmas eval_defs = formatVapiTranscript_def loop_body_def pushed_def initial_def trim_def
  startsWith_def js_def is_ws_def Interviewer_def Candidate_def whitespace_only_def
  alternating_def formatTranscriptForLLM_def speaker_def endCall_def mounted_def
  detectFaces_def watching_def rendered_def

section \<open>Claims\<close>

text \<open>
  C1 (progressive growth). In every state the loop reaches in which the accumulator is
  open with role \<open>R\<close> and text \<open>T\<close>, an element of role \<open>R\<close> whose text is strictly longer
  than \<open>T\<close> and starts with \<open>trim T\<close> replaces the accumulator text by its own text and
  leaves the role and the finalized utterances as they are. The stream
  \<open>[{Interviewer, "Hello"}, {Interviewer, "Hello there"}]\<close> consolidates to the single
  utterance \<open>{Interviewer, "Hello there"}\<close>.
\<close>

theorem progressive_growth:
  assumes "s = loop initial its"
    and "currentRole s = Some R" and "currentText s = T"
    and "role f = R"
    and "length T < length (text' f)" and "startsWith (text' f) (trim T)"
  shows "loop_body s f = s\<lparr>currentText := text' f\<rparr>
    \<and> result (loop_body s f) = result s
    \<and> currentRole (loop_body s f) = Some R
    \<and> formatVapiTranscript
          [\<lparr>role = Interviewer, text' = js ''Hello''\<rparr>,
           \<lparr>role = Interviewer, text' = js ''Hello there''\<rparr>]
        = [\<lparr>role = Interviewer, text' = js ''Hello there''\<rparr>]"
proof -
  have R: "R \<noteq> []"
    using assms(1,2) loop_role_nonempty by blast
  have t: "text' f \<noteq> []"
    using assms(5) by auto
  have step: "loop_body s f = s\<lparr>currentText := text' f\<rparr>"
    using assms(2-6) R t by (simp add: loop_body_def)
  have ex: "formatVapiTranscript
          [\<lparr>role = Interviewer, text' = js ''Hello''\<rparr>,
           \<lparr>role = Interviewer, text' = js ''Hello there''\<rparr>]
        = [\<lparr>role = Interviewer, text' = js ''Hello there''\<rparr>]"
    by (simp add: eval_defs)
  show ?thesis
    using step ex assms(2) by simp
qed

theorem progressive_growth_witness:
  "loop_body (loop initial [\<lparr>role = Interviewer, text' = js ''Hello''\<rparr>])
       \<lparr>role = Interviewer, text' = js ''Hello there''\<rparr>
     = \<lparr>result = [], currentRole = Some Interviewer, currentText = js ''Hello there''\<rparr>
   \<and> formatVapiTranscript
          [\<lparr>role = Interviewer, text' = js ''Hello''\<rparr>,
           \<lparr>role = Interviewer, text' = js ''Hello there''\<rparr>]
        = [\<lparr>role = Interviewer, text' = js ''Hello there''\<rparr>]"
proof -
  let ?s = "loop initial [\<lparr>role = Interviewer, text' = js ''Hello''\<rparr>]"
  let ?f = "\<lparr>role = Interviewer, text' = js ''Hello there''\<rparr>"
  have s: "?s = \<lparr>result = [], currentRole = Some Interviewer, currentText = js ''Hello''\<rparr>"
    by (simp add: eval_defs)
  have h2: "currentRole ?s = Some Interviewer" and h3: "currentText ?s = js ''Hello''"
    unfolding s by simp_all
  have h5: "length (js ''Hello'') < length (text' ?f)"
    by (simp add: js_def)
  have h6: "startsWith (text' ?f) (trim (js ''Hello''))"
    by (simp add: eval_defs)
  show ?thesis
    using progressive_growth [OF refl h2 h3 _ h5 h6] s by simp
qed


text \<open>
  C2 (speaker switch flush). The per-fragment step applies to an element that the loop
  does not skip, one with a role and a text that are not empty. In every state the loop
  reaches in which the accumulator is open with role \<open>R\<close> and a text \<open>T\<close> whose trim is not
  empty, such an element of another role appends \<open>{R, trim T}\<close> to the finalized utterances
  and opens the accumulator anew with its own role and text. The stream
  \<open>[{Interviewer, "Hello"}, {Candidate, "Hi"}]\<close> consolidates to those two utterances.
\<close>

theorem speaker_switch_flush:
  assumes "s = loop initial its"
    and "currentRole s = Some R" and "currentText s = T" and "trim T \<noteq> []"
    and "role f \<noteq> R" and "role f \<noteq> []" and "text' f \<noteq> []"
  shows "loop_body s f
      = \<lparr>result = result s @ [\<lparr>role = R, text' = trim T\<rparr>],
         currentRole = Some (role f), currentText = text' f\<rparr>
    \<and> formatVapiTranscript
          [\<lparr>role = Interviewer, text' = js ''Hello''\<rparr>, \<lparr>role = Candidate, text' = js ''Hi''\<rparr>]
        = [\<lparr>role = Interviewer, text' = js ''Hello''\<rparr>, \<lparr>role = Candidate, text' = js ''Hi''\<rparr>]"
proof -
  have R: "R \<noteq> []"
    using assms(1,2) loop_role_nonempty by blast
  have step: "loop_body s f
      = \<lparr>result = result s @ [\<lparr>role = R, text' = trim T\<rparr>],
         currentRole = Some (role f), currentText = text' f\<rparr>"
    using assms(2-7) R by (auto simp: loop_body_def pushed_def)
  have ex: "formatVapiTranscript
          [\<lparr>role = Interviewer, text' = js ''Hello''\<rparr>, \<lparr>role = Candidate, text' = js ''Hi''\<rparr>]
        = [\<lparr>role = Interviewer, text' = js ''Hello''\<rparr>, \<lparr>role = Candidate, text' = js ''Hi''\<rparr>]"
    by (simp add: eval_defs)
  show ?thesis using step ex by simp
qed

theorem speaker_switch_flush_witness:
  "loop_body (loop initial [\<lparr>role = Interviewer, text' = js ''Hello''\<rparr>])
       \<lparr>role = Candidate, text' = js ''Hi''\<rparr>
     = \<lparr>result = [\<lparr>role = Interviewer, text' = js ''Hello''\<rparr>],
        currentRole = Some Candidate, currentText = js ''Hi''\<rparr>"
proof -
  let ?s = "loop initial [\<lparr>role = Interviewer, text' = js ''Hello''\<rparr>]"
  let ?f = "\<lparr>role = Candidate, text' = js ''Hi''\<rparr>"
  have s: "?s = \<lparr>result = [], currentRole = Some Interviewer, currentText = js ''Hello''\<rparr>"
    by (simp add: eval_defs)
  have h2: "currentRole ?s = Some Interviewer" and h3: "currentText ?s = js ''Hello''"
    unfolding s by simp_all
  have h4: "trim (js ''Hello'') \<noteq> []" and t: "trim (js ''Hello'') = js ''Hello''"
    by (simp_all add: eval_defs)
  have h5: "role ?f \<noteq> Interviewer" and h6: "role ?f \<noteq> []" and h7: "text' ?f \<noteq> []"
    by (simp_all add: eval_defs)
  show ?thesis
    using speaker_switch_flush [OF refl h2 h3 h4 h5 h6 h7] s t by simp
qed

text \<open>
  C3 (same-role non-growth handling). The per-fragment step applies to an element whose
  text does not trim to the empty string. In every state the loop reaches in which the
  accumulator is open with role \<open>R\<close> and text \<open>T\<close>, such an element of role \<open>R\<close> whose text
  is not a progressive growth of \<open>T\<close> is appended to \<open>T\<close> after exactly one space if and only
  if \<open>T\<close> does not contain its text, and leaves the state unchanged otherwise. For any
  element of role \<open>R\<close> that is no growth, the loop body appends exactly when \<open>T\<close> does not
  contain the text and the text does not trim to the empty string.
  \<open>[{Candidate, "Yes"}, {Candidate, "Also I think so"}]\<close> consolidates to the one utterance
  \<open>{Candidate, "Yes Also I think so"}\<close>, and \<open>[{Candidate, "Ready"}, {Candidate, "Ready"}]\<close>
  to the one utterance \<open>{Candidate, "Ready"}\<close>.
\<close>

theorem same_role_non_growth:
  assumes "s = loop initial its"
    and "currentRole s = Some R" and "currentText s = T"
    and "role f = R"
    and "\<not> (length T < length (text' f) \<and> startsWith (text' f) (trim T))"
  shows "(trim (text' f) \<noteq> [] \<longrightarrow>
        (loop_body s f = s\<lparr>currentText := T @ [0x20] @ text' f\<rparr>)
          = (\<not> includes_sub T (text' f))
        \<and> (includes_sub T (text' f) \<longrightarrow> loop_body s f = s))
    \<and> loop_body s f
      = (if \<not> includes_sub T (text' f) \<and> trim (text' f) \<noteq> []
         then s\<lparr>currentText := T @ [0x20] @ text' f\<rparr> else s)
    \<and> formatVapiTranscript
          [\<lparr>role = Candidate, text' = js ''Yes''\<rparr>,
           \<lparr>role = Candidate, text' = js ''Also I think so''\<rparr>]
        = [\<lparr>role = Candidate, text' = js ''Yes Also I think so''\<rparr>]
    \<and> formatVapiTranscript
          [\<lparr>role = Candidate, text' = js ''Ready''\<rparr>, \<lparr>role = Candidate, text' = js ''Ready''\<rparr>]
        = [\<lparr>role = Candidate, text' = js ''Ready''\<rparr>]"
proof -
  have R: "role f \<noteq> []"
    using assms(1,2,4) loop_role_nonempty by blast
  have sp: "js '' '' = [0x20]"
    by (simp add: js_def)
  have step: "loop_body s f
      = (if \<not> includes_sub T (text' f) \<and> trim (text' f) \<noteq> []
         then s\<lparr>currentText := T @ [0x20] @ text' f\<rparr> else s)"
  proof (cases "text' f = []")
    case True
    then show ?thesis by (simp add: loop_body_skip includes_sub_Nil)
  next
    case False
    then show ?thesis using assms(2-5) R by (auto simp: loop_body_def sp)
  qed
  have "currentText (s\<lparr>currentText := T @ [0x20] @ text' f\<rparr>) \<noteq> currentText s"
    using assms(3) by simp
  then have changed: "s\<lparr>currentText := T @ [0x20] @ text' f\<rparr> \<noteq> s"
    by metis
  have iff: "(loop_body s f = s\<lparr>currentText := T @ [0x20] @ text' f\<rparr>)
          = (\<not> includes_sub T (text' f))"
    and discard: "includes_sub T (text' f) \<longrightarrow> loop_body s f = s"
    if "trim (text' f) \<noteq> []"
    using that step changed by auto
  have ex1: "formatVapiTranscript
          [\<lparr>role = Candidate, text' = js ''Yes''\<rparr>,
           \<lparr>role = Candidate, text' = js ''Also I think so''\<rparr>]
        = [\<lparr>role = Candidate, text' = js ''Yes Also I think so''\<rparr>]"
    by (simp add: eval_defs)
  have ex2: "formatVapiTranscript
          [\<lparr>role = Candidate, text' = js ''Ready''\<rparr>, \<lparr>role = Candidate, text' = js ''Ready''\<rparr>]
        = [\<lparr>role = Candidate, text' = js ''Ready''\<rparr>]"
    by (simp add: eval_defs)
  show ?thesis using step iff discard ex1 ex2 by blast
qed

theorem same_role_non_growth_witness:
  "loop_body (loop initial [\<lparr>role = Candidate, text' = js ''Yes''\<rparr>])
       \<lparr>role = Candidate, text' = js ''Also I think so''\<rparr>
     = \<lparr>result = [], currentRole = Some Candidate, currentText = js ''Yes Also I think so''\<rparr>
   \<and> loop_body (loop initial [\<lparr>role = Candidate, text' = js ''Ready''\<rparr>])
       \<lparr>role = Candidate, text' = js ''Ready''\<rparr>
     = \<lparr>result = [], currentRole = Some Candidate, currentText = js ''Ready''\<rparr>"
proof -
  let ?s = "loop initial [\<lparr>role = Candidate, text' = js ''Yes''\<rparr>]"
  let ?f = "\<lparr>role = Candidate, text' = js ''Also I think so''\<rparr>"
  have s: "?s = \<lparr>result = [], currentRole = Some Candidate, currentText = js ''Yes''\<rparr>"
    by (simp add: eval_defs)
  have h2: "currentRole ?s = Some Candidate" and h3: "currentText ?s = js ''Yes''"
    unfolding s by simp_all
  have h5: "\<not> (length (js ''Yes'') < length (text' ?f)
               \<and> startsWith (text' ?f) (trim (js ''Yes'')))"
    by (simp add: eval_defs)
  have inc: "\<not> includes_sub (js ''Yes'') (text' ?f)"
    and t: "trim (text' ?f) \<noteq> []"
    by (simp_all add: eval_defs)
  have h4: "role ?f = Candidate"
    by simp
  have 1: "loop_body ?s ?f = ?s\<lparr>currentText := js ''Yes'' @ [0x20] @ text' ?f\<rparr>"
    using same_role_non_growth [OF refl h2 h3 h4 h5] inc t by blast
  let ?r = "loop initial [\<lparr>role = Candidate, text' = js ''Ready''\<rparr>]"
  let ?g = "\<lparr>role = Candidate, text' = js ''Ready''\<rparr>"
  have r: "?r = \<lparr>result = [], currentRole = Some Candidate, currentText = js ''Ready''\<rparr>"
    by (simp add: eval_defs)
  have k2: "currentRole ?r = Some Candidate" and k3: "currentText ?r = js ''Ready''"
    unfolding r by simp_all
  have k5: "\<not> (length (js ''Ready'') < length (text' ?g)
               \<and> startsWith (text' ?g) (trim (js ''Ready'')))"
    by (simp add: eval_defs)
  have inc': "includes_sub (js ''Ready'') (text' ?g)"
    and t': "trim (text' ?g) \<noteq> []"
    by (simp_all add: eval_defs)
  have k4: "role ?g = Candidate"
    by simp
  have 2: "loop_body ?r ?g = ?r"
    using same_role_non_growth [OF refl k2 k3 k4 k5] inc' t' by blast
  show ?thesis
    using 1 2 unfolding s r by (simp add: js_def)
qed

text \<open>
  C4 (silent discard of blank fragments). The guard tests the text for emptiness, not for
  blankness. An element whose text is empty changes nothing in the state, whatever its
  role, and consolidating a stream gives the same transcript as consolidating it without
  the elements whose text is empty. A whitespace-only element changes nothing when its
  role is that of the open accumulator and the accumulator's text does not trim to the
  empty string.
\<close>

theorem empty_fragments_discarded:
  "formatVapiTranscript (filter (\<lambda>f. text' f \<noteq> []) its) = formatVapiTranscript its
   \<and> (text' f = [] \<longrightarrow> loop_body s f = s)
   \<and> (currentRole s = Some (role f) \<and> trim (currentText s) \<noteq> [] \<and> trim (text' f) = []
        \<longrightarrow> loop_body s f = s)"
proof -
  have same_role: "loop_body s f = s"
    if h: "currentRole s = Some (role f)" "trim (currentText s) \<noteq> []" "trim (text' f) = []"
  proof -
    have "\<not> prefix (trim (currentText s)) (text' f)"
      using blank_not_prefixed [of "text' f" "currentText s"] h(2,3)
      by (auto simp: trim_eq_Nil_iff)
    then show ?thesis using h by (simp add: loop_body_def startsWith_def)
  qed
  show ?thesis
    using format_filter [of its] loop_body_skip [of f s] same_role by blast
qed

theorem empty_fragments_discarded_witness:
  "formatVapiTranscript
      [\<lparr>role = Interviewer, text' = js ''Hello''\<rparr>, \<lparr>role = Interviewer, text' = js ''Hello there''\<rparr>]
    = formatVapiTranscript
      [\<lparr>role = Interviewer, text' = js ''Hello''\<rparr>, \<lparr>role = Candidate, text' = []\<rparr>,
       \<lparr>role = Interviewer, text' = js ''Hello there''\<rparr>]
   \<and> loop_body \<lparr>result = [], currentRole = Some Interviewer, currentText = js ''Hello''\<rparr>
        \<lparr>role = Candidate, text' = []\<rparr>
     = \<lparr>result = [], currentRole = Some Interviewer, currentText = js ''Hello''\<rparr>
   \<and> loop_body \<lparr>result = [], currentRole = Some Interviewer, currentText = js ''Hello''\<rparr>
        \<lparr>role = Interviewer, text' = js ''  ''\<rparr>
     = \<lparr>result = [], currentRole = Some Interviewer, currentText = js ''Hello''\<rparr>"
proof -
  let ?s = "\<lparr>result = [], currentRole = Some Interviewer, currentText = js ''Hello''\<rparr>"
  let ?its = "[\<lparr>role = Interviewer, text' = js ''Hello''\<rparr>, \<lparr>role = Candidate, text' = []\<rparr>,
       \<lparr>role = Interviewer, text' = js ''Hello there''\<rparr>]"
  have f: "filter (\<lambda>f. text' f \<noteq> []) ?its
      = [\<lparr>role = Interviewer, text' = js ''Hello''\<rparr>,
         \<lparr>role = Interviewer, text' = js ''Hello there''\<rparr>]"
    by (simp add: js_def)
  have a: "trim (currentText ?s) \<noteq> []" and b: "trim (js ''  '') = []"
    by (simp_all add: eval_defs)
  show ?thesis
    using empty_fragments_discarded [of ?its "\<lparr>role = Candidate, text' = []\<rparr>" ?s]
      empty_fragments_discarded [of ?its "\<lparr>role = Interviewer, text' = js ''  ''\<rparr>" ?s]
      a b
    unfolding f by simp
qed

text \<open>
  A whitespace-only element of the other role is not discarded. Between \<open>"Hello"\<close> and its
  growth \<open>"Hello there"\<close> the element \<open>{Candidate, " "}\<close> closes the interviewer's utterance;
  the stream consolidates to two utterances, and without that element to one.
\<close>

theorem blank_fragments_counterexample:
  "formatVapiTranscript
      [\<lparr>role = Interviewer, text' = js ''Hello''\<rparr>, \<lparr>role = Candidate, text' = js '' ''\<rparr>,
       \<lparr>role = Interviewer, text' = js ''Hello there''\<rparr>]
    \<noteq> formatVapiTranscript (filter (\<lambda>f. trim (text' f) \<noteq> [])
      [\<lparr>role = Interviewer, text' = js ''Hello''\<rparr>, \<lparr>role = Candidate, text' = js '' ''\<rparr>,
       \<lparr>role = Interviewer, text' = js ''Hello there''\<rparr>])
   \<and> formatVapiTranscript
      [\<lparr>role = Interviewer, text' = js ''Hello''\<rparr>, \<lparr>role = Candidate, text' = js '' ''\<rparr>,
       \<lparr>role = Interviewer, text' = js ''Hello there''\<rparr>]
    = [\<lparr>role = Interviewer, text' = js ''Hello''\<rparr>,
       \<lparr>role = Interviewer, text' = js ''Hello there''\<rparr>]
   \<and> filter (\<lambda>f. trim (text' f) \<noteq> [])
      [\<lparr>role = Interviewer, text' = js ''Hello''\<rparr>, \<lparr>role = Candidate, text' = js '' ''\<rparr>,
       \<lparr>role = Interviewer, text' = js ''Hello there''\<rparr>]
    = [\<lparr>role = Interviewer, text' = js ''Hello''\<rparr>,
       \<lparr>role = Interviewer, text' = js ''Hello there''\<rparr>]
   \<and> formatVapiTranscript
      [\<lparr>role = Interviewer, text' = js ''Hello''\<rparr>,
       \<lparr>role = Interviewer, text' = js ''Hello there''\<rparr>]
    = [\<lparr>role = Interviewer, text' = js ''Hello there''\<rparr>]"
  by (simp add: eval_defs)

text \<open>
  C5 (adjacency invariant). For every stream without whitespace-only fragments, no two
  adjacent utterances of the consolidated transcript have the same role; so no two
  adjacent utterances are equal in role and text.
\<close>

theorem no_adjacent_same_role:
  assumes "\<forall>f \<in> set its. \<not> whitespace_only f"
  shows "alternating (formatVapiTranscript its) \<and> distinct_adj (formatVapiTranscript its)"
proof -
  have alt: "alternating (formatVapiTranscript its)"
    using assms by (simp add: format_alternating list_all_iff)
  then have "distinct_adj (formatVapiTranscript its)"
    unfolding alternating_def distinct_adj_def
    by (rule successively_mono) auto
  with alt show ?thesis by simp
qed

theorem no_adjacent_same_role_witness:
  "alternating (formatVapiTranscript
      [\<lparr>role = Interviewer, text' = js ''Hi''\<rparr>, \<lparr>role = Candidate, text' = js ''Hi''\<rparr>,
       \<lparr>role = Interviewer, text' = js ''Hi''\<rparr>])
   \<and> distinct_adj (formatVapiTranscript
      [\<lparr>role = Interviewer, text' = js ''Hi''\<rparr>, \<lparr>role = Candidate, text' = js ''Hi''\<rparr>,
       \<lparr>role = Interviewer, text' = js ''Hi''\<rparr>])"
proof -
  let ?its = "[\<lparr>role = Interviewer, text' = js ''Hi''\<rparr>, \<lparr>role = Candidate, text' = js ''Hi''\<rparr>,
       \<lparr>role = Interviewer, text' = js ''Hi''\<rparr>]"
  have h: "\<forall>f \<in> set ?its. \<not> whitespace_only f"
    by (simp add: whitespace_only_def js_def trim_def is_ws_def)
  show ?thesis
    using no_adjacent_same_role [OF h] .
qed

text \<open>
  With a whitespace-only element of the candidate between them, two equal utterances of
  the interviewer stand side by side in the consolidated transcript.
\<close>

theorem adjacency_counterexample:
  "formatVapiTranscript
      [\<lparr>role = Interviewer, text' = js ''Hi''\<rparr>, \<lparr>role = Candidate, text' = js '' ''\<rparr>,
       \<lparr>role = Interviewer, text' = js ''Hi''\<rparr>]
    = [\<lparr>role = Interviewer, text' = js ''Hi''\<rparr>, \<lparr>role = Interviewer, text' = js ''Hi''\<rparr>]
   \<and> \<not> distinct_adj (formatVapiTranscript
      [\<lparr>role = Interviewer, text' = js ''Hi''\<rparr>, \<lparr>role = Candidate, text' = js '' ''\<rparr>,
       \<lparr>role = Interviewer, text' = js ''Hi''\<rparr>])"
  by (simp add: eval_defs)

text \<open>
  C6 (idempotent consolidation). Consolidating a consolidated transcript gives it back,
  \<open>formatVapiTranscript (formatVapiTranscript t) = formatVapiTranscript t\<close>, exactly when no
  two adjacent utterances of \<open>formatVapiTranscript t\<close> have the same role; this is so for
  every \<open>t\<close> without whitespace-only fragments. A third consolidation never changes the
  result of the second.
\<close>

theorem consolidation_idempotent:
  "(formatVapiTranscript (formatVapiTranscript t) = formatVapiTranscript t)
      = alternating (formatVapiTranscript t)
   \<and> ((\<forall>f \<in> set t. \<not> whitespace_only f)
      \<longrightarrow> formatVapiTranscript (formatVapiTranscript t) = formatVapiTranscript t)
   \<and> formatVapiTranscript (formatVapiTranscript (formatVapiTranscript t))
      = formatVapiTranscript (formatVapiTranscript t)"
proof -
  have 1: "formatVapiTranscript (formatVapiTranscript x) = formatVapiTranscript x"
    if "alternating (formatVapiTranscript x)" for x
    using that by (simp add: format_id formatVapiTranscript_normal)
  have 2: "alternating (formatVapiTranscript x)" if "\<forall>f \<in> set x. \<not> whitespace_only f" for x
    using that by (simp add: format_alternating list_all_iff)
  have 3: "\<forall>f \<in> set (formatVapiTranscript x). \<not> whitespace_only f" for x
    using formatVapiTranscript_normal [of x]
    by (auto simp: list_all_iff trimmed_nonempty_def whitespace_only_def)
  have 4: "alternating (formatVapiTranscript (formatVapiTranscript t))"
    using 2 3 by blast
  have 5: "alternating (formatVapiTranscript t)"
    if "formatVapiTranscript (formatVapiTranscript t) = formatVapiTranscript t"
    using 4 that by simp
  show ?thesis
    using 1 [of t] 1 [of "formatVapiTranscript t"] 2 [of t] 4 5 by blast
qed

theorem consolidation_idempotent_witness:
  "formatVapiTranscript (formatVapiTranscript
      [\<lparr>role = Interviewer, text' = js ''Hello''\<rparr>, \<lparr>role = Interviewer, text' = js ''Hello there''\<rparr>,
       \<lparr>role = Candidate, text' = js ''Hi''\<rparr>])
    = formatVapiTranscript
      [\<lparr>role = Interviewer, text' = js ''Hello''\<rparr>, \<lparr>role = Interviewer, text' = js ''Hello there''\<rparr>,
       \<lparr>role = Candidate, text' = js ''Hi''\<rparr>]"
proof -
  let ?t = "[\<lparr>role = Interviewer, text' = js ''Hello''\<rparr>,
       \<lparr>role = Interviewer, text' = js ''Hello there''\<rparr>, \<lparr>role = Candidate, text' = js ''Hi''\<rparr>]"
  have h: "\<forall>f \<in> set ?t. \<not> whitespace_only f"
    by (simp add: whitespace_only_def js_def trim_def is_ws_def)
  show ?thesis
    using consolidation_idempotent [of ?t] h by blast
qed

text \<open>
  The consolidated transcript of this stream has two utterances; consolidating it again
  leaves one.
\<close>

theorem idempotence_counterexample:
  "formatVapiTranscript (formatVapiTranscript
      [\<lparr>role = Interviewer, text' = js ''Hi''\<rparr>, \<lparr>role = Candidate, text' = js '' ''\<rparr>,
       \<lparr>role = Interviewer, text' = js ''Hi''\<rparr>])
    \<noteq> formatVapiTranscript
      [\<lparr>role = Interviewer, text' = js ''Hi''\<rparr>, \<lparr>role = Candidate, text' = js '' ''\<rparr>,
       \<lparr>role = Interviewer, text' = js ''Hi''\<rparr>]
   \<and> formatVapiTranscript
      [\<lparr>role = Interviewer, text' = js ''Hi''\<rparr>, \<lparr>role = Candidate, text' = js '' ''\<rparr>,
       \<lparr>role = Interviewer, text' = js ''Hi''\<rparr>]
    = [\<lparr>role = Interviewer, text' = js ''Hi''\<rparr>, \<lparr>role = Interviewer, text' = js ''Hi''\<rparr>]
   \<and> formatVapiTranscript (formatVapiTranscript
      [\<lparr>role = Interviewer, text' = js ''Hi''\<rparr>, \<lparr>role = Candidate, text' = js '' ''\<rparr>,
       \<lparr>role = Interviewer, text' = js ''Hi''\<rparr>])
    = [\<lparr>role = Interviewer, text' = js ''Hi''\<rparr>]"
  by (simp add: eval_defs)

text \<open>
  C10 (output normalization). Every utterance of a consolidated transcript has a role
  that is not empty (so not \<open>null\<close> either) and a text that is not empty and equal to its
  own trim.
\<close>

theorem output_normalized:
  "\<forall>u \<in> set (formatVapiTranscript its).
      role u \<noteq> [] \<and> text' u \<noteq> [] \<and> trim (text' u) = text' u"
  using formatVapiTranscript_normal [of its] by (simp add: list_all_iff trimmed_nonempty_def)

theorem output_normalized_witness:
  "formatVapiTranscript
      [\<lparr>role = Interviewer, text' = js ''  Hello ''\<rparr>, \<lparr>role = Candidate, text' = js '' ''\<rparr>,
       \<lparr>role = [], text' = js ''lost''\<rparr>, \<lparr>role = Candidate, text' = js ''Hi  ''\<rparr>]
    = [\<lparr>role = Interviewer, text' = js ''Hello''\<rparr>, \<lparr>role = Candidate, text' = js ''Hi''\<rparr>]
   \<and> trim (js ''Hello'') = js ''Hello'' \<and> trim (js ''Hi'') = js ''Hi''
   \<and> Interviewer \<noteq> [] \<and> Candidate \<noteq> []"
proof -
  let ?its = "[\<lparr>role = Interviewer, text' = js ''  Hello ''\<rparr>, \<lparr>role = Candidate, text' = js '' ''\<rparr>,
       \<lparr>role = [], text' = js ''lost''\<rparr>, \<lparr>role = Candidate, text' = js ''Hi  ''\<rparr>]"
  have v: "formatVapiTranscript ?its
      = [\<lparr>role = Interviewer, text' = js ''Hello''\<rparr>, \<lparr>role = Candidate, text' = js ''Hi''\<rparr>]"
    by (simp add: eval_defs)
  show ?thesis
    using output_normalized [of ?its] unfolding v by simp
qed

text \<open>
  C7 (termination and the dispatcher). The component has no one-shot flag: every call of
  \<open>endCall\<close> made while the Vapi instance exists starts \<open>run\<close> once, and the call-end
  listener starts nothing. So the number of evaluations a session starts is the number
  of its \<open>endCall\<close> events; a session with exactly one \<open>endCall\<close>, and a call-end event before
  or after it, starts exactly one.
\<close>

theorem one_dispatch_per_endCall:
  assumes "vapi c"
  shows "length (evaluations (session c es)) = length (evaluations c) + count_list es EndCall
    \<and> evaluations (handle c Call_end) = evaluations c
    \<and> length (evaluations (session mounted [Call_start, EndCall, Call_end])) = 1
    \<and> length (evaluations (session mounted [Call_start, Call_end, EndCall])) = 1"
proof -
  have "length (evaluations (session mounted [Call_start, EndCall, Call_end])) = 1"
    and "length (evaluations (session mounted [Call_start, Call_end, EndCall])) = 1"
    by (simp_all add: endCall_def mounted_def)
  then show ?thesis
    using session_evaluations [OF assms, of es] by simp
qed

theorem one_dispatch_per_endCall_witness:
  "length (evaluations (session mounted
      [Call_start, Transcript_message \<lparr>role = Interviewer, text' = js ''Hello''\<rparr>,
       Call_end, EndCall])) = 1"
proof -
  have v: "vapi mounted"
    by (simp add: mounted_def)
  have e: "evaluations mounted = []"
    by (simp add: mounted_def)
  show ?thesis
    using one_dispatch_per_endCall [OF v,
        of "[Call_start, Transcript_message \<lparr>role = Interviewer, text' = js ''Hello''\<rparr>,
             Call_end, EndCall]"] e
    by simp
qed

text \<open>
  The end button is pressed twice before the call-end event arrives: the session has both
  a stop command and the collaborator's signal, and two evaluations are started.
\<close>

theorem one_shot_counterexample:
  "EndCall \<in> set [Call_start, EndCall, EndCall, Call_end]
   \<and> Call_end \<in> set [Call_start, EndCall, EndCall, Call_end]
   \<and> length (evaluations (session mounted [Call_start, EndCall, EndCall, Call_end])) = 2"
  by (simp add: endCall_def mounted_def)

text \<open>
  C8 (detection ticks). \<open>detectFaces\<close> has no test for a query in flight: at every tick at
  which the video is ready it calls \<open>estimateFaces\<close>, whether or not an earlier call has
  returned. After \<open>n\<close> such ticks with no return between them, \<open>n\<close> more calls are in flight.
\<close>

theorem every_ready_tick_queries:
  assumes "videoReady m"
  shows "monitor_step m Tick = m\<lparr>inFlight := inFlight m + 1, queries := queries m + 1\<rparr>
    \<and> inFlight (monitoring m (replicate n Tick)) = inFlight m + n
    \<and> queries (monitoring m (replicate n Tick)) = queries m + n"
  using assms ticks_in_flight [OF assms, of n] by (simp add: detectFaces_def)

theorem every_ready_tick_queries_witness:
  "monitor_step \<lparr>videoReady = True, inFlight = 1, queries = 1, alerts = 0\<rparr> Tick
     = \<lparr>videoReady = True, inFlight = 2, queries = 2, alerts = 0\<rparr>"
  using every_ready_tick_queries
    [of "\<lparr>videoReady = True, inFlight = 1, queries = 1, alerts = 0\<rparr>" 0]
  by simp

text \<open>
  After the first tick one query is in flight. The second tick comes before it returns,
  and issues a second query: two are in flight.
\<close>

theorem overlap_guard_counterexample:
  "inFlight (monitoring watching [Tick]) = 1
   \<and> queries (monitoring watching [Tick]) = 1
   \<and> queries (monitoring watching [Tick, Tick]) = 2
   \<and> inFlight (monitoring watching [Tick, Tick]) = 2"
  by (simp add: detectFaces_def watching_def)

text \<open>
  C9 (evaluation document). \<open>formatTranscriptForLLM\<close> renders the consolidation of its
  argument: the header, then one labelled line per utterance, each followed by a blank
  line. \<open>endCall\<close> hands it the transcript that is consolidated already, so the document
  that \<open>run\<close> receives has the lines of the transcript consolidated twice. Whenever no
  two adjacent utterances of the consolidated transcript have the same role, these are
  the lines of the consolidated transcript itself. For the empty transcript the document
  is the header alone, and \<open>run\<close> is started with it.
\<close>

theorem evaluation_document:
  "formatTranscriptForLLM x = rendered (formatVapiTranscript x)
   \<and> evaluations (endCall (mounted\<lparr>transcript := t\<rparr>))
      = [rendered (formatVapiTranscript (formatVapiTranscript t))]
   \<and> (alternating (formatVapiTranscript t)
      \<longrightarrow> evaluations (endCall (mounted\<lparr>transcript := t\<rparr>))
          = [rendered (formatVapiTranscript t)])
   \<and> rendered [] = js ''INTERVIEW TRANSCRIPT:'' @ [0xA, 0xA]
   \<and> evaluations (endCall mounted) = [js ''INTERVIEW TRANSCRIPT:'' @ [0xA, 0xA]]"
proof -
  have d: "evaluations (endCall (mounted\<lparr>transcript := t\<rparr>))
      = [rendered (formatVapiTranscript (formatVapiTranscript t))]"
    by (simp add: endCall_def mounted_def formatTranscriptForLLM_rendered)
  have i: "formatVapiTranscript (formatVapiTranscript t) = formatVapiTranscript t"
    if "alternating (formatVapiTranscript t)"
    using that by (simp add: format_id formatVapiTranscript_normal)
  have e: "rendered [] = js ''INTERVIEW TRANSCRIPT:'' @ [0xA, 0xA]"
    by (simp add: rendered_def)
  have m: "evaluations (endCall mounted) = [js ''INTERVIEW TRANSCRIPT:'' @ [0xA, 0xA]]"
    by (simp add: endCall_def mounted_def formatTranscriptForLLM_rendered
        formatVapiTranscript_def e)
  show ?thesis
    using formatTranscriptForLLM_rendered [of x] d i e m by simp
qed

theorem evaluation_document_witness:
  "evaluations (endCall (mounted\<lparr>transcript :=
      [\<lparr>role = Interviewer, text' = js ''Hello''\<rparr>, \<lparr>role = Candidate, text' = js ''Hi''\<rparr>]\<rparr>))
    = [js ''INTERVIEW TRANSCRIPT:'' @ [0xA, 0xA]
       @ js ''AI INTERVIEWER: Hello'' @ [0xA, 0xA]
       @ js ''CANDIDATE: Hi'' @ [0xA, 0xA]]"
proof -
  let ?t = "[\<lparr>role = Interviewer, text' = js ''Hello''\<rparr>, \<lparr>role = Candidate, text' = js ''Hi''\<rparr>]"
  have v: "formatVapiTranscript ?t = ?t"
    by (simp add: eval_defs)
  have a: "alternating (formatVapiTranscript ?t)"
    unfolding v by (simp add: alternating_def Interviewer_def Candidate_def js_def)
  have r: "rendered ?t = js ''INTERVIEW TRANSCRIPT:'' @ [0xA, 0xA]
       @ js ''AI INTERVIEWER: Hello'' @ [0xA, 0xA]
       @ js ''CANDIDATE: Hi'' @ [0xA, 0xA]"
    by (simp add: rendered_def Interviewer_def Candidate_def js_def)
  show ?thesis
    using evaluation_document [of ?t ?t] a unfolding v r by blast
qed

text \<open>
  The consolidated transcript of this stream has two utterances of the interviewer. The
  document that \<open>run\<close> receives has one line after the header; the rendering of the
  consolidated transcript has two.
\<close>

theorem evaluation_document_counterexample:
  "evaluations (endCall (mounted\<lparr>transcript :=
      [\<lparr>role = Interviewer, text' = js ''Hi''\<rparr>, \<lparr>role = Candidate, text' = js '' ''\<rparr>,
       \<lparr>role = Interviewer, text' = js ''Hi''\<rparr>]\<rparr>))
    \<noteq> [rendered (formatVapiTranscript
      [\<lparr>role = Interviewer, text' = js ''Hi''\<rparr>, \<lparr>role = Candidate, text' = js '' ''\<rparr>,
       \<lparr>role = Interviewer, text' = js ''Hi''\<rparr>])]
   \<and> formatVapiTranscript
      [\<lparr>role = Interviewer, text' = js ''Hi''\<rparr>, \<lparr>role = Candidate, text' = js '' ''\<rparr>,
       \<lparr>role = Interviewer, text' = js ''Hi''\<rparr>]
    = [\<lparr>role = Interviewer, text' = js ''Hi''\<rparr>, \<lparr>role = Interviewer, text' = js ''Hi''\<rparr>]
   \<and> evaluations (endCall (mounted\<lparr>transcript :=
      [\<lparr>role = Interviewer, text' = js ''Hi''\<rparr>, \<lparr>role = Candidate, text' = js '' ''\<rparr>,
       \<lparr>role = Interviewer, text' = js ''Hi''\<rparr>]\<rparr>))
    = [js ''INTERVIEW TRANSCRIPT:'' @ [0xA, 0xA] @ js ''AI INTERVIEWER: Hi'' @ [0xA, 0xA]]
   \<and> rendered [\<lparr>role = Interviewer, text' = js ''Hi''\<rparr>, \<lparr>role = Interviewer, text' = js ''Hi''\<rparr>]
    = js ''INTERVIEW TRANSCRIPT:'' @ [0xA, 0xA] @ js ''AI INTERVIEWER: Hi'' @ [0xA, 0xA]
      @ js ''AI INTERVIEWER: Hi'' @ [0xA, 0xA]"
  by (simp add: eval_defs)

end
